theory Spec2Isabelle
  imports Complex_Main
begin

section \<open>The climate scenario analysis script (streamlit\_app.py)\<close>

text \<open>
  The program is one script that is run from top to bottom at every interaction. Its
  inputs are the industry chosen in the select box, the list returned by the scenario
  multiselect, the uploaded exposure table (or none), and whether the export button was
  pressed. Its outputs are the markdown texts, the radar chart series, the bar chart
  series and the texts written into the PDF.

  Numbers: the script computes with Python floats and numpy numbers. They are modelled as
  \<^typ>\<open>real\<close>, so rounding of IEEE-754 arithmetic and the wrap-around of a 64-bit
  integer sum are not part of this model. Python's \<open>int\<close> is \<^typ>\<open>int\<close>.

  Strings are byte lists; the degree sign of the catalog texts is written as its two
  UTF-8 bytes.
\<close>

subsection \<open>Errors and dictionaries\<close>

datatype error = KeyError | IndexError | TypeError | ValueError

text \<open>
  A Python dict literal is an association list in insertion order. \<open>d[k]\<close> raises
  KeyError for a missing key; \<open>d.get(k, default)\<close> never raises.
\<close>

definition getitem :: "('k \<times> 'v) list \<Rightarrow> 'k \<Rightarrow> error + 'v" where
  "getitem d k = (case map_of d k of None \<Rightarrow> Inl KeyError | Some v \<Rightarrow> Inr v)"

definition get_or :: "('k \<times> 'v) list \<Rightarrow> 'k \<Rightarrow> 'v \<Rightarrow> 'v" where
  "get_or d k dflt = (case map_of d k of None \<Rightarrow> dflt | Some v \<Rightarrow> v)"

definition keys :: "('k \<times> 'v) list \<Rightarrow> 'k list" where
  "keys d = map fst d"

text \<open>\<open>xs[0]\<close> on a Python list: IndexError when the list is empty.\<close>

definition index0 :: "'a list \<Rightarrow> error + 'a" where
  "index0 xs = (case xs of [] \<Rightarrow> Inl IndexError | x # _ \<Rightarrow> Inr x)"

subsection \<open>The scenario catalog (lines 13 to 29)\<close>

definition degree :: string where
  "degree = [CHR 0xC2, CHR 0xB0]"

definition scenario_definitions :: "(string \<times> string) list" where
  "scenario_definitions =
    [(''Net Zero 2050'',
        ''Immediate and ambitious mitigation aligned with 1.5'' @ degree @
        ''C. (ASRS Ref: Strategy S2-6, Metrics M2-1)''),
     (''Delayed Transition'',
        ''Postponed mitigation leading to a sharper adjustment later. (ASRS Ref: Strategy S2-6, Risk R2-2)''),
     (''Hot House World'',
        ''No meaningful transition, resulting in >3'' @ degree @
        ''C warming. (ASRS Ref: Risk R2-1, Metrics M2-2)''),
     (''Immediate Disorderly Transition (2025 release)'',
        ''Aggressive action taken suddenly, creating short-term volatility. (ASRS Ref: Strategy S2-6, Governance G2-3)''),
     (''Current Policies Extension (2025 release)'',
        ''Continuation of current insufficient policies, high physical risks. (ASRS Ref: Risk R2-1, Strategy S2-6)'')]"

text \<open>
  One entry of \<open>scenario_data\<close>: a dict with the same four keys in every entry, so a
  record. \<open>physical_risk\<close> is a float literal, the other numbers are ints.
\<close>

record scenario =
  carbon_price :: int
  temperature_pathway :: string
  risk_profile :: "int list"
  physical_risk :: real

definition scenario_data :: "(string \<times> scenario) list" where
  "scenario_data =
    [(''Net Zero 2050'',
        \<lparr>carbon_price = 130, temperature_pathway = ''1.5'' @ degree @ ''C'',
         risk_profile = [8, 3, 9, 7, 6], physical_risk = 2 / 10\<rparr>),
     (''Delayed Transition'',
        \<lparr>carbon_price = 180, temperature_pathway = ''2.4'' @ degree @ ''C'',
         risk_profile = [7, 5, 8, 6, 4], physical_risk = 4 / 10\<rparr>),
     (''Hot House World'',
        \<lparr>carbon_price = 0, temperature_pathway = ''>3'' @ degree @ ''C'',
         risk_profile = [4, 9, 2, 5, 3], physical_risk = 7 / 10\<rparr>),
     (''Immediate Disorderly Transition (2025 release)'',
        \<lparr>carbon_price = 160, temperature_pathway = ''<2'' @ degree @ ''C'',
         risk_profile = [9, 6, 8, 8, 5], physical_risk = 3 / 10\<rparr>),
     (''Current Policies Extension (2025 release)'',
        \<lparr>carbon_price = 20, temperature_pathway = ''>3.5'' @ degree @ ''C'',
         risk_profile = [3, 10, 1, 4, 2], physical_risk = 8 / 10\<rparr>)]"

subsection \<open>Industry defaults and the scenario selection (lines 33 to 49)\<close>

definition industries :: "string list" where
  "industries =
    [''Financial Services'', ''Real Estate'', ''Agriculture'', ''Energy'', ''Manufacturing'']"

definition industry_defaults :: "(string \<times> string list) list" where
  "industry_defaults =
    [(''Financial Services'', [''Net Zero 2050'', ''Delayed Transition'']),
     (''Real Estate'', [''Net Zero 2050'', ''Hot House World'']),
     (''Agriculture'', [''Delayed Transition'', ''Hot House World'']),
     (''Energy'', [''Immediate Disorderly Transition (2025 release)'', ''Net Zero 2050'']),
     (''Manufacturing'', [''Current Policies Extension (2025 release)'', ''Delayed Transition''])]"

text \<open>Line 43: \<open>industry_defaults.get(industry, ["Net Zero 2050"])\<close>.\<close>

definition default_scenarios :: "string \<Rightarrow> string list" where
  "default_scenarios industry = get_or industry_defaults industry [''Net Zero 2050'']"

text \<open>Line 46: the options offered by the multiselect, \<open>list(scenario_data.keys())\<close>.\<close>

definition scenario_options :: "string list" where
  "scenario_options = keys scenario_data"

text \<open>
  Lines 44 to 49: the multiselect is called with a label, the options, the default and a
  help text, and with no bound on the number of choices. The widget returns the chosen
  options without repetition, in the order they were chosen. So the lists it can return
  are the repetition-free lists over the options.
\<close>

definition multiselect_returns :: "string list \<Rightarrow> string list \<Rightarrow> bool" where
  "multiselect_returns options sel = (distinct sel \<and> list_all (\<lambda>s. s \<in> set options) sel)"

text \<open>What the catalog is expected to satisfy, entry by entry.\<close>

definition scenario_ok :: "scenario \<Rightarrow> bool" where
  "scenario_ok S =
    (length (risk_profile S) = 5 \<and> 0 \<le> physical_risk S \<and> physical_risk S \<le> 1 \<and>
     0 \<le> carbon_price S)"

text \<open>
  A \<open>for\<close> loop whose body may raise and otherwise appends its result to a list: the
  first iteration that raises ends the loop with that error.
\<close>

fun for_each :: "('a \<Rightarrow> error + 'b) \<Rightarrow> 'a list \<Rightarrow> error + 'b list" where
  "for_each body [] = Inr []"
| "for_each body (x # xs) =
    (case body x of
       Inl e \<Rightarrow> Inl e
     | Inr y \<Rightarrow> (case for_each body xs of Inl e \<Rightarrow> Inl e | Inr ys \<Rightarrow> Inr (y # ys)))"

subsection \<open>The uploaded table (lines 56 to 63)\<close>

text \<open>
  The table is modelled as \<open>pd.read_csv\<close> returns it: named columns of one length, a
  column being numeric when every field of it is a number and of dtype \<open>object\<close>, holding
  the fields as text, otherwise. A file with a header and no rows gives columns of dtype
  \<open>object\<close>. Empty fields (NaN) are not modelled.
\<close>

datatype pyval = Number real | Text string

datatype series = Numbers "real list" | Labels "string list"

type_synonym dataframe = "(string \<times> series) list"

fun series_items :: "series \<Rightarrow> pyval list" where
  "series_items (Numbers xs) = map Number xs"
| "series_items (Labels ss) = map Text ss"

text \<open>
  \<open>Series.sum()\<close>: the sum of a numeric column; for a column of text the concatenation
  of the texts, and 0 when the column is empty.
\<close>

fun series_sum :: "series \<Rightarrow> pyval" where
  "series_sum (Numbers xs) = Number (sum_list xs)"
| "series_sum (Labels ss) = (if ss = [] then Number 0 else Text (concat ss))"

text \<open>\<open>total_exposure * x\<close> for a float \<open>x\<close>: a text cannot be multiplied by a float.\<close>

fun py_mul :: "pyval \<Rightarrow> real \<Rightarrow> error + real" where
  "py_mul (Number t) x = Inr (t * x)"
| "py_mul (Text s) x = Inl TypeError"

definition nrows :: "dataframe \<Rightarrow> nat" where
  "nrows df = (case df of [] \<Rightarrow> 0 | (name, col) # rest \<Rightarrow> length (series_items col))"

text \<open>\<open>df.iterrows()\<close>: row \<open>i\<close> maps every column name to the column's field \<open>i\<close>.\<close>

definition iterrows :: "dataframe \<Rightarrow> (string \<times> pyval) list list" where
  "iterrows df =
    map (\<lambda>i. map (\<lambda>(name, col). (name, series_items col ! i)) df) [0..<nrows df]"

text \<open>
  Texts given to \<open>st.markdown\<close> and \<open>pdf.multi_cell\<close> are f-strings. The text parts are
  kept as text; an interpolated number is kept as the number together with its format:
  \<open>Shown v\<close> is \<open>{v}\<close>, \<open>Shown_int n\<close> is \<open>{n}\<close> for a Python int and \<open>Fixed2 x\<close> is
  \<open>{x:.2f}\<close>.
\<close>

datatype frag = Lit string | Shown pyval | Shown_int int | Fixed2 real

type_synonym text_line = "frag list"

text \<open>Lines 59 to 63. The result is the value of \<open>total_exposure\<close> and the markdown text.\<close>

definition total_exposure :: "dataframe \<Rightarrow> error + pyval" where
  "total_exposure exposure_df =
    (case getitem exposure_df ''Exposure_M AUD'' of
       Inl e \<Rightarrow> Inl e
     | Inr col \<Rightarrow> Inr (series_sum col))"

definition total_markdown :: "pyval \<Rightarrow> text_line" where
  "total_markdown tot = [Lit ''**Total Exposure:** AUD $'', Shown tot, Lit ''M'']"

subsection \<open>Scenario definitions shown under the selection (lines 51 and 52)\<close>

definition definition_markdown :: "string \<Rightarrow> error + text_line" where
  "definition_markdown s =
    (case getitem scenario_definitions s of
       Inl e \<Rightarrow> Inl e
     | Inr d \<Rightarrow> Inr [Lit (''**'' @ s @ ''**: '' @ d)])"

subsection \<open>The radar chart (lines 67 to 84)\<close>

definition labels :: "string list" where
  "labels = [''Transition Risk'', ''Physical Risk'', ''Carbon Exposure'',
             ''Scenario Coverage'', ''Mitigation Maturity'']"

text \<open>
  Lines 68 and 69: five equally spaced angles and the first one again. The angles are
  kept in full turns (multiples of \<open>2 * pi\<close>), which keeps them computable.
\<close>

definition angles :: "real list" where
  "angles =
    (let a = map (\<lambda>k. real k / real (length labels)) [0..<length labels]
     in a @ take 1 a)"

text \<open>
  Lines 74 to 77, one ring of the radar chart: the scores are the risk profile closed
  with its first score. \<open>ax.plot\<close> raises ValueError when there are not as many scores
  as angles.
\<close>

definition radar_ring :: "string \<Rightarrow> error + (string \<times> int list)" where
  "radar_ring s =
    (case getitem scenario_data s of
       Inl e \<Rightarrow> Inl e
     | Inr data \<Rightarrow>
        (case index0 (risk_profile data) of
           Inl e \<Rightarrow> Inl e
         | Inr first \<Rightarrow>
            (let scores = risk_profile data @ [first]
             in if length scores = length angles then Inr (s, scores) else Inl ValueError)))"

subsection \<open>The bar chart (lines 87 to 111)\<close>

text \<open>Lines 93 and 94 of the loop body.\<close>

definition bar_estimate :: "scenario \<Rightarrow> pyval \<Rightarrow> error + (real \<times> real)" where
  "bar_estimate data tot =
    (case index0 (risk_profile data) of
       Inl e \<Rightarrow> Inl e
     | Inr r \<Rightarrow>
        (case py_mul tot (real_of_int r / 10) of
           Inl e \<Rightarrow> Inl e
         | Inr var \<Rightarrow>
            (case py_mul tot (physical_risk data) of
               Inl e \<Rightarrow> Inl e
             | Inr loss \<Rightarrow> Inr (var, loss))))"

definition bar_group :: "pyval \<Rightarrow> string \<Rightarrow> error + (real \<times> real)" where
  "bar_group tot s =
    (case getitem scenario_data s of
       Inl e \<Rightarrow> Inl e
     | Inr data \<Rightarrow> bar_estimate data tot)"

record bars =
  tick_labels :: "string list"
  transition_vars :: "real list"
  physical_losses :: "real list"

text \<open>
  The chart is drawn only when a file was uploaded (line 87); \<open>None\<close> is the page
  without the chart.
\<close>

definition bar_chart :: "string list \<Rightarrow> pyval option \<Rightarrow> error + bars option" where
  "bar_chart selected uploaded =
    (case uploaded of
       None \<Rightarrow> Inr None
     | Some tot \<Rightarrow>
        (case for_each (bar_group tot) selected of
           Inl e \<Rightarrow> Inl e
         | Inr groups \<Rightarrow>
            Inr (Some \<lparr>tick_labels = selected,
                       transition_vars = map fst groups,
                       physical_losses = map snd groups\<rparr>)))"

subsection \<open>The PDF export (lines 115 to 137)\<close>

text \<open>
  Lines 122 to 124. \<open>uploaded\<close> is \<open>None\<close> when no file was uploaded; then both
  estimates are 0 and \<open>total_exposure\<close> is not read.
\<close>

definition pdf_estimate :: "scenario \<Rightarrow> pyval option \<Rightarrow> error + (real \<times> real)" where
  "pdf_estimate data uploaded =
    (case index0 (risk_profile data) of
       Inl e \<Rightarrow> Inl e
     | Inr r \<Rightarrow>
        (let var_multiplier = real_of_int r / 10 in
         case (case uploaded of Some tot \<Rightarrow> py_mul tot var_multiplier | None \<Rightarrow> Inr 0) of
           Inl e \<Rightarrow> Inl e
         | Inr estimated_var \<Rightarrow>
            (case (case uploaded of Some tot \<Rightarrow> py_mul tot (physical_risk data)
                   | None \<Rightarrow> Inr 0) of
               Inl e \<Rightarrow> Inl e
             | Inr estimated_physical_loss \<Rightarrow> Inr (estimated_var, estimated_physical_loss))))"

text \<open>Lines 121 to 132: the texts of one scenario, one list entry per \<open>multi_cell\<close>.\<close>

definition pdf_section :: "pyval option \<Rightarrow> string \<Rightarrow> error + text_line list" where
  "pdf_section uploaded s =
    (case getitem scenario_data s of
       Inl e \<Rightarrow> Inl e
     | Inr data \<Rightarrow>
        (case pdf_estimate data uploaded of
           Inl e \<Rightarrow> Inl e
         | Inr (estimated_var, estimated_physical_loss) \<Rightarrow>
            (case getitem scenario_definitions s of
               Inl e \<Rightarrow> Inl e
             | Inr d \<Rightarrow>
                Inr ([[Lit (''Scenario: '' @ s)],
                      [Lit (''  Description: '' @ d)],
                      [Lit (''  Temperature Pathway: '' @ temperature_pathway data)],
                      [Lit ''  Carbon Price (2030): AUD $'', Shown_int (carbon_price data),
                       Lit '' per tCO2e'']]
                     @ (if uploaded \<noteq> None
                        then [[Lit ''  Estimated Transition VaR: AUD $'', Fixed2 estimated_var,
                               Lit ''M''],
                              [Lit ''  Estimated Physical Risk Loss: AUD $'',
                               Fixed2 estimated_physical_loss, Lit ''M'']]
                        else [])
                     @ [[Lit []]]))))"

text \<open>Lines 134 to 137: the heading and one text per row of the uploaded table.\<close>

definition listing_heading :: text_line where
  "listing_heading = [Lit ''Uploaded Exposure Data:'']"

definition row_text :: "(string \<times> pyval) list \<Rightarrow> error + text_line" where
  "row_text row =
    (case getitem row ''Sector'' of
       Inl e \<Rightarrow> Inl e
     | Inr sector \<Rightarrow>
        (case getitem row ''Exposure_M AUD'' of
           Inl e \<Rightarrow> Inl e
         | Inr exposure \<Rightarrow> Inr [Shown sector, Lit '': AUD $'', Shown exposure, Lit ''M'']))"

definition exposure_listing :: "dataframe option \<Rightarrow> error + text_line list" where
  "exposure_listing exposure_df =
    (case exposure_df of
       None \<Rightarrow> Inr []
     | Some df \<Rightarrow>
        (case for_each row_text (iterrows df) of
           Inl e \<Rightarrow> Inl e
         | Inr rows \<Rightarrow> Inr (listing_heading # rows)))"

definition generate_pdf ::
    "string list \<Rightarrow> pyval option \<Rightarrow> dataframe option \<Rightarrow> error + text_line list" where
  "generate_pdf selected uploaded exposure_df =
    (case for_each (pdf_section uploaded) selected of
       Inl e \<Rightarrow> Inl e
     | Inr sections \<Rightarrow>
        (case exposure_listing exposure_df of
           Inl e \<Rightarrow> Inl e
         | Inr listing \<Rightarrow> Inr (concat sections @ listing)))"

subsection \<open>One run of the script\<close>

record inputs =
  industry :: string
  selected_scenarios :: "string list"
  exposure_file :: "dataframe option"
  generate_clicked :: bool

record page =
  definition_texts :: "text_line list"
  total_text :: "text_line option"
  radar :: "(string \<times> int list) list"
  bar :: "bars option"
  pdf :: "text_line list option"

text \<open>
  Lines 59 to 62: with a file, \<open>total_exposure\<close> gets its value; without one it stays
  unbound, which is \<open>None\<close> here.
\<close>

definition upload :: "dataframe option \<Rightarrow> error + pyval option" where
  "upload file =
    (case file of
       None \<Rightarrow> Inr None
     | Some df \<Rightarrow> (case total_exposure df of Inl e \<Rightarrow> Inl e | Inr t \<Rightarrow> Inr (Some t)))"

text \<open>Lines 115 to 137: the export runs only when the button was pressed.\<close>

definition export ::
    "bool \<Rightarrow> string list \<Rightarrow> pyval option \<Rightarrow> dataframe option \<Rightarrow>
     error + text_line list option" where
  "export clicked selected uploaded exposure_df =
    (if clicked
     then (case generate_pdf selected uploaded exposure_df of
             Inl e \<Rightarrow> Inl e
           | Inr texts \<Rightarrow> Inr (Some texts))
     else Inr None)"

text \<open>
  The script from line 51 to the end, in its order: an error raised by a step ends the
  run. The temporary file and the download button of the export are not modelled.
\<close>

definition run :: "inputs \<Rightarrow> error + page" where
  "run inp =
    (case for_each definition_markdown (selected_scenarios inp) of
       Inl e \<Rightarrow> Inl e
     | Inr texts \<Rightarrow>
    (case upload (exposure_file inp) of
       Inl e \<Rightarrow> Inl e
     | Inr uploaded \<Rightarrow>
    (case for_each radar_ring (selected_scenarios inp) of
       Inl e \<Rightarrow> Inl e
     | Inr rings \<Rightarrow>
    (case bar_chart (selected_scenarios inp) uploaded of
       Inl e \<Rightarrow> Inl e
     | Inr chart \<Rightarrow>
    (case export (generate_clicked inp) (selected_scenarios inp) uploaded (exposure_file inp) of
       Inl e \<Rightarrow> Inl e
     | Inr report \<Rightarrow>
        Inr \<lparr>definition_texts = texts,
             total_text = map_option total_markdown uploaded,
             radar = rings, bar = chart, pdf = report\<rparr>)))))"



text \<open>The two texts of a report that show a monetary estimate.\<close>

definition estimate_text :: "text_line \<Rightarrow> bool" where
  "estimate_text l =
    (case l of
       [Lit t, Fixed2 x, Lit u] \<Rightarrow>
         t = ''  Estimated Transition VaR: AUD $'' \<or>
         t = ''  Estimated Physical Risk Loss: AUD $''
     | _ \<Rightarrow> False)"

subsection \<open>The example of the specification\<close>




section \<open>Properties\<close>

lemma in_keys_iff: "k \<in> set (keys d) \<longleftrightarrow> map_of d k \<noteq> None"
  by (simp add: keys_def map_of_eq_None_iff)

lemma scenario_names: "keys scenario_data =
    [''Net Zero 2050'', ''Delayed Transition'', ''Hot House World'',
     ''Immediate Disorderly Transition (2025 release)'',
     ''Current Policies Extension (2025 release)'']"
  by (simp add: keys_def scenario_data_def)

lemma definition_names: "keys scenario_definitions = keys scenario_data"
  by (simp add: keys_def scenario_data_def scenario_definitions_def)

text \<open>
  Claim C7. Every scenario of the parameters table has a risk profile of exactly five
  scores, a physical risk factor between 0 and 1 and a carbon price that is not
  negative; and the definitions table and the parameters table have the same scenario
  names (here even in the same order, each name once).
\<close>

theorem catalog_invariant:
  "list_all (\<lambda>(name, S). scenario_ok S) scenario_data \<and>
   set (keys scenario_definitions) = set (keys scenario_data) \<and>
   keys scenario_definitions = keys scenario_data \<and>
   distinct (keys scenario_data)"
  by (simp add: definition_names scenario_names)
    (simp add: scenario_data_def scenario_ok_def)

text \<open>
  Claim C8. Looking up the default scenarios is a total function: for an industry that
  is a key of the defaults table it gives that entry, and for every other industry it
  gives the one-element list with Net Zero 2050.
\<close>

theorem default_scenarios_fallback:
  "default_scenarios ind =
    (if ind \<in> set (keys industry_defaults)
     then the (map_of industry_defaults ind) else [''Net Zero 2050''])"
  by (cases "map_of industry_defaults ind")
    (simp_all add: default_scenarios_def get_or_def in_keys_iff)

theorem default_scenarios_fallback_witness:
  "default_scenarios ''Unknown/Other'' = [''Net Zero 2050''] \<and>
   default_scenarios ''Energy'' =
     [''Immediate Disorderly Transition (2025 release)'', ''Net Zero 2050'']"
  using default_scenarios_fallback [of "''Unknown/Other''"]
    default_scenarios_fallback [of "''Energy''"]
  by (simp add: keys_def industry_defaults_def)

subsection \<open>Lookups and loops\<close>

lemma getitem_Inr: "getitem d k = Inr v \<longleftrightarrow> map_of d k = Some v"
  by (simp add: getitem_def split: option.splits)

lemma for_each_Inr:
  "for_each f xs = Inr ys \<Longrightarrow> list_all2 (\<lambda>x y. f x = Inr y) xs ys"
  by (induction xs arbitrary: ys) (auto split: sum.splits)

lemma catalog_entry_ok:
  assumes "getitem scenario_data name = Inr S"
  shows "scenario_ok S"
proof -
  have "(name, S) \<in> set scenario_data"
    using assms by (simp add: getitem_Inr map_of_SomeD)
  moreover have "list_all (\<lambda>(name, S). scenario_ok S) scenario_data"
    by (simp add: scenario_data_def scenario_ok_def)
  ultimately show ?thesis
    by (auto simp add: list_all_iff)
qed

lemma index0_nonempty: "xs \<noteq> [] \<Longrightarrow> index0 xs = Inr (xs ! 0)"
  by (cases xs) (simp_all add: index0_def)

lemma catalog_index0:
  assumes "getitem scenario_data name = Inr S"
  shows "index0 (risk_profile S) = Inr (risk_profile S ! 0)"
proof -
  have "length (risk_profile S) = 5"
    using catalog_entry_ok [OF assms] by (simp add: scenario_ok_def)
  then have "risk_profile S \<noteq> []" by auto
  then show ?thesis by (rule index0_nonempty)
qed

lemma for_each_succeeds:
  "list_all (\<lambda>x. \<exists>y. f x = Inr y) xs \<Longrightarrow> \<exists>ys. for_each f xs = Inr ys"
  by (induction xs) auto

lemma for_each_options:
  assumes "list_all (\<lambda>s. s \<in> set scenario_options) sel"
    and "\<And>s. s \<in> set scenario_options \<Longrightarrow> \<exists>y. f s = Inr y"
  shows "\<exists>ys. for_each f sel = Inr ys"
proof (rule for_each_succeeds)
  show "list_all (\<lambda>x. \<exists>y. f x = Inr y) sel"
    using assms by (simp add: list_all_iff)
qed

lemma for_each_length: "for_each f xs = Inr ys \<Longrightarrow> length ys = length xs"
  using for_each_Inr [of f xs ys] by (simp add: list_all2_lengthD)


subsection \<open>The derived metrics\<close>



text \<open>
  Claim C5. The estimate computed for the PDF export when a file was uploaded is the
  estimate computed for the bar chart, for every scenario record and every total, errors
  included.
\<close>

theorem estimate_same: "pdf_estimate S (Some tot) = bar_estimate S tot"
  by (simp add: pdf_estimate_def bar_estimate_def split: sum.splits)

subsection \<open>Reading the uploaded table\<close>





subsection \<open>The selection\<close>

text \<open>
  Claim C9 does not hold of the script: the multiselect is labelled "Choose up to 3 NGFS
  Scenarios" but is given no bound, so all five scenarios can be selected, and the loops
  of the script then run over all five (here the radar chart, with five rings).
\<close>

theorem five_scenarios_selected:
  "multiselect_returns scenario_options scenario_options \<and>
   length scenario_options = 5 \<and>
   for_each radar_ring scenario_options =
     Inr [(''Net Zero 2050'', [8, 3, 9, 7, 6, 8]),
          (''Delayed Transition'', [7, 5, 8, 6, 4, 7]),
          (''Hot House World'', [4, 9, 2, 5, 3, 4]),
          (''Immediate Disorderly Transition (2025 release)'', [9, 6, 8, 8, 5, 9]),
          (''Current Policies Extension (2025 release)'', [3, 10, 1, 4, 2, 3])]"
  by (simp add: multiselect_returns_def scenario_options_def keys_def scenario_data_def
      radar_ring_def getitem_def index0_def angles_def labels_def)

subsection \<open>Without an uploaded table\<close>

lemma option_in_catalog:
  assumes "s \<in> set scenario_options"
  shows "\<exists>S d. getitem scenario_data s = Inr S \<and> getitem scenario_definitions s = Inr d"
proof -
  have "map_of scenario_data s \<noteq> None"
    using assms by (simp add: scenario_options_def in_keys_iff)
  moreover have "s \<in> set (keys scenario_definitions)"
    using assms by (simp add: scenario_options_def definition_names)
  then have "map_of scenario_definitions s \<noteq> None"
    by (simp add: in_keys_iff)
  ultimately show ?thesis
    by (auto simp add: getitem_Inr)
qed

lemma pdf_estimate_absent:
  "getitem scenario_data name = Inr S \<Longrightarrow> pdf_estimate S None = Inr (0, 0)"
  using catalog_index0 [of name S] by (simp add: pdf_estimate_def)

lemma definition_markdown_option:
  "s \<in> set scenario_options \<Longrightarrow> \<exists>y. definition_markdown s = Inr y"
  using option_in_catalog [of s] by (auto simp add: definition_markdown_def)

lemma radar_ring_option:
  assumes "s \<in> set scenario_options"
  shows "\<exists>y. radar_ring s = Inr y"
proof -
  obtain S where S: "getitem scenario_data s = Inr S"
    using option_in_catalog [OF assms] by blast
  have "length (risk_profile S) = 5"
    using catalog_entry_ok [OF S] by (simp add: scenario_ok_def)
  then show ?thesis
    using S catalog_index0 [OF S] by (simp add: radar_ring_def angles_def labels_def)
qed

lemma pdf_section_absent_option:
  assumes "s \<in> set scenario_options"
  shows "\<exists>y. pdf_section None s = Inr y"
proof -
  obtain S d where "getitem scenario_data s = Inr S" "getitem scenario_definitions s = Inr d"
    using option_in_catalog [OF assms] by blast
  then show ?thesis
    using pdf_estimate_absent [of s S] by (simp add: pdf_section_def)
qed

lemma pdf_section_absent_texts:
  "pdf_section None s = Inr texts \<Longrightarrow> \<not> list_ex estimate_text texts"
  by (auto simp add: pdf_section_def estimate_text_def split: sum.splits prod.splits)

lemma list_ex_concat: "list_ex P (concat xss) \<longleftrightarrow> list_ex (list_ex P) xss"
  by (induction xss) simp_all

lemma generate_pdf_absent_texts:
  assumes "generate_pdf sel None None = Inr texts"
  shows "\<not> list_ex estimate_text texts"
proof -
  obtain sections where sec: "for_each (pdf_section None) sel = Inr sections"
    and texts: "texts = concat sections"
    using assms by (auto simp add: generate_pdf_def exposure_listing_def split: sum.splits)
  have "list_all2 (\<lambda>s y. pdf_section None s = Inr y) sel sections"
    using sec by (rule for_each_Inr)
  then have "\<not> list_ex (list_ex estimate_text) sections"
    by (induction rule: list_all2_induct) (simp_all add: pdf_section_absent_texts)
  then show ?thesis
    by (simp add: texts list_ex_concat)
qed

text \<open>
  Claim C2, as stated, fails: without an uploaded table the export computes both
  estimates of a scenario as the number 0 (lines 123 and 124), not as an undefined value.
\<close>

theorem absent_estimate_counterexample:
  "getitem scenario_data ''Net Zero 2050'' =
     Inr \<lparr>carbon_price = 130, temperature_pathway = ''1.5'' @ degree @ ''C'',
          risk_profile = [8, 3, 9, 7, 6], physical_risk = 2 / 10\<rparr> \<and>
   pdf_estimate \<lparr>carbon_price = 130, temperature_pathway = ''1.5'' @ degree @ ''C'',
                 risk_profile = [8, 3, 9, 7, 6], physical_risk = 2 / 10\<rparr> None = Inr (0, 0)"
  by (simp add: getitem_def scenario_data_def pdf_estimate_def index0_def)

text \<open>
  Claim C2, amended. Without an uploaded table, for scenarios chosen among the options:
  the export computes both estimates of each scenario as 0, and no monetary figure is
  shown: the run succeeds, the page has no total and no bar chart, and a report, when
  one is generated, has no text for the transition VaR or for the physical risk loss.
\<close>

theorem no_dataset_no_figures:
  assumes "exposure_file inp = None"
    and "list_all (\<lambda>s. s \<in> set scenario_options) (selected_scenarios inp)"
  shows "(getitem scenario_data name = Inr S \<longrightarrow> pdf_estimate S None = Inr (0, 0)) \<and>
         (\<exists>pg. run inp = Inr pg \<and> total_text pg = None \<and> bar pg = None \<and>
            (case pdf pg of
               None \<Rightarrow> \<not> generate_clicked inp
             | Some texts \<Rightarrow> generate_clicked inp \<and> \<not> list_ex estimate_text texts))"
proof -
  let ?sel = "selected_scenarios inp"
  obtain texts where texts: "for_each definition_markdown ?sel = Inr texts"
    using for_each_options [OF assms(2), of definition_markdown]
    by (blast intro: definition_markdown_option)
  obtain rings where rings: "for_each radar_ring ?sel = Inr rings"
    using for_each_options [OF assms(2), of radar_ring]
    by (blast intro: radar_ring_option)
  obtain sections where sections: "for_each (pdf_section None) ?sel = Inr sections"
    using for_each_options [OF assms(2), of "pdf_section None"]
    by (blast intro: pdf_section_absent_option)
  have pdf: "generate_pdf ?sel None None = Inr (concat sections)"
    using sections by (simp add: generate_pdf_def exposure_listing_def)
  have none: "\<not> list_ex estimate_text (concat sections)"
    using pdf by (rule generate_pdf_absent_texts)
  have "run inp = Inr \<lparr>definition_texts = texts, total_text = None, radar = rings,
      bar = None, pdf = (if generate_clicked inp then Some (concat sections) else None)\<rparr>"
    using texts rings pdf assms(1)
    by (simp add: run_def upload_def bar_chart_def export_def)
  then show ?thesis
    using none by (auto simp add: pdf_estimate_absent)
qed

text \<open>Claim C2, amended, at Net Zero 2050 with the export button pressed.\<close>

theorem no_dataset_no_figures_witness:
  "run \<lparr>industry = ''Energy'', selected_scenarios = [''Net Zero 2050''],
        exposure_file = None, generate_clicked = True\<rparr> =
   Inr \<lparr>definition_texts =
          [[Lit (''**Net Zero 2050**: Immediate and ambitious mitigation aligned with 1.5'' @
                 degree @ ''C. (ASRS Ref: Strategy S2-6, Metrics M2-1)'')]],
        total_text = None,
        radar = [(''Net Zero 2050'', [8, 3, 9, 7, 6, 8])],
        bar = None,
        pdf = Some [[Lit ''Scenario: Net Zero 2050''],
                    [Lit (''  Description: Immediate and ambitious mitigation aligned with 1.5'' @
                          degree @ ''C. (ASRS Ref: Strategy S2-6, Metrics M2-1)'')],
                    [Lit (''  Temperature Pathway: 1.5'' @ degree @ ''C'')],
                    [Lit ''  Carbon Price (2030): AUD $'', Shown_int 130, Lit '' per tCO2e''],
                    [Lit []]]\<rparr>"
  using no_dataset_no_figures [of "\<lparr>industry = ''Energy'', selected_scenarios = [''Net Zero 2050''],
        exposure_file = None, generate_clicked = True\<rparr>" "''Net Zero 2050''"
        "\<lparr>carbon_price = 130, temperature_pathway = ''1.5'' @ degree @ ''C'',
          risk_profile = [8, 3, 9, 7, 6], physical_risk = 2 / 10\<rparr>"]
  by (simp add: run_def upload_def bar_chart_def export_def generate_pdf_def
      exposure_listing_def pdf_section_def pdf_estimate_def index0_def getitem_def
      scenario_data_def scenario_definitions_def definition_markdown_def radar_ring_def
      angles_def labels_def)

subsection \<open>Order of the scenarios and place of the exposure listing\<close>













subsection \<open>An empty selection\<close>

lemma row_text_iterrows:
  assumes "''Sector'' \<in> set (keys df)" and "''Exposure_M AUD'' \<in> set (keys df)"
    and "row \<in> set (iterrows df)"
  shows "\<exists>y. row_text row = Inr y"
proof -
  obtain i where row: "row = map (\<lambda>(name, col). (name, series_items col ! i)) df"
    using assms(3) by (auto simp add: iterrows_def)
  have look: "map_of row k = map_option (\<lambda>col. series_items col ! i) (map_of df k)" for k
    by (simp add: row map_of_map)
  obtain c1 c2 where "map_of df ''Sector'' = Some c1" "map_of df ''Exposure_M AUD'' = Some c2"
    using assms(1,2) by (auto simp add: in_keys_iff)
  then show ?thesis
    by (simp add: row_text_def getitem_def look)
qed

lemma exposure_listing_succeeds:
  assumes "''Sector'' \<in> set (keys df)" and "''Exposure_M AUD'' \<in> set (keys df)"
  shows "\<exists>rows. for_each row_text (iterrows df) = Inr rows \<and> length rows = nrows df \<and>
           exposure_listing (Some df) = Inr (listing_heading # rows)"
proof -
  have "list_all (\<lambda>row. \<exists>y. row_text row = Inr y) (iterrows df)"
    using row_text_iterrows [OF assms] by (simp add: list_all_iff)
  then obtain rows where rows: "for_each row_text (iterrows df) = Inr rows"
    using for_each_succeeds by blast
  have "length rows = nrows df"
    using for_each_length [OF rows] by (simp add: iterrows_def)
  then show ?thesis
    using rows by (simp add: exposure_listing_def)
qed



subsection \<open>Inputs on which the script succeeds\<close>

text \<open>
  The run succeeds whenever the scenarios are chosen among the options and the uploaded
  table, if there is one, has a sector column and a numeric exposure column.
\<close>

lemma bar_group_option:
  assumes "s \<in> set scenario_options"
  shows "\<exists>y. bar_group (Number t) s = Inr y"
proof -
  obtain S where S: "getitem scenario_data s = Inr S"
    using option_in_catalog [OF assms] by blast
  have "bar_group (Number t) s =
      Inr (t * (real_of_int (risk_profile S ! 0) / 10), t * physical_risk S)"
    using S catalog_index0 [OF S] by (simp add: bar_group_def bar_estimate_def)
  then show ?thesis ..
qed

lemma pdf_section_option:
  assumes "s \<in> set scenario_options"
  shows "\<exists>y. pdf_section (Some (Number t)) s = Inr y"
proof -
  obtain S d where S: "getitem scenario_data s = Inr S"
    and d: "getitem scenario_definitions s = Inr d"
    using option_in_catalog [OF assms] by blast
  have "pdf_estimate S (Some (Number t)) =
      Inr (t * (real_of_int (risk_profile S ! 0) / 10), t * physical_risk S)"
    using catalog_index0 [OF S] by (simp add: pdf_estimate_def)
  then show ?thesis
    using S d by (simp add: pdf_section_def)
qed

lemma run_succeeds:
  assumes "list_all (\<lambda>s. s \<in> set scenario_options) (selected_scenarios inp)"
    and "case exposure_file inp of
           None \<Rightarrow> True
         | Some df \<Rightarrow> ''Sector'' \<in> set (keys df) \<and>
                       (\<exists>xs. getitem df ''Exposure_M AUD'' = Inr (Numbers xs))"
  shows "\<exists>pg. run inp = Inr pg"
proof -
  let ?sel = "selected_scenarios inp"
  obtain texts where texts: "for_each definition_markdown ?sel = Inr texts"
    using for_each_options [OF assms(1), of definition_markdown]
    by (blast intro: definition_markdown_option)
  obtain rings where rings: "for_each radar_ring ?sel = Inr rings"
    using for_each_options [OF assms(1), of radar_ring]
    by (blast intro: radar_ring_option)
  show ?thesis
  proof (cases "exposure_file inp")
    case None
    obtain sections where "for_each (pdf_section None) ?sel = Inr sections"
      using for_each_options [OF assms(1), of "pdf_section None"]
      by (blast intro: pdf_section_absent_option)
    then show ?thesis
      using texts rings None
      by (simp add: run_def upload_def bar_chart_def export_def generate_pdf_def
          exposure_listing_def)
  next
    case (Some df)
    then obtain xs where sector: "''Sector'' \<in> set (keys df)"
      and col: "getitem df ''Exposure_M AUD'' = Inr (Numbers xs)"
      using assms(2) by auto
    have "''Exposure_M AUD'' \<in> set (keys df)"
      using col by (simp add: in_keys_iff getitem_Inr)
    then obtain rows where listing: "exposure_listing (Some df) = Inr (listing_heading # rows)"
      using exposure_listing_succeeds [OF sector] by blast
    obtain groups where groups: "for_each (bar_group (Number (sum_list xs))) ?sel = Inr groups"
      using for_each_options [OF assms(1), of "bar_group (Number (sum_list xs))"]
      by (blast intro: bar_group_option)
    obtain sections where
      sections: "for_each (pdf_section (Some (Number (sum_list xs)))) ?sel = Inr sections"
      using for_each_options [OF assms(1), of "pdf_section (Some (Number (sum_list xs)))"]
      by (blast intro: pdf_section_option)
    show ?thesis
      using texts rings Some col listing groups sections
      by (simp add: run_def upload_def total_exposure_def bar_chart_def export_def
          generate_pdf_def)
  qed
qed

end
